theory Spec2Isabelle
  imports Complex_Main
begin

section \<open>Exceptions and log records\<close>

text \<open>
  Python exceptions are values. Only classes derived from \<open>Exception\<close> are modelled: they are
  what \<open>except Exception\<close> catches. \<open>ValueError\<close> is what \<open>int\<close> and prometheus_client raise;
  \<open>Raised cls msg\<close> is an exception of any other class.
\<close>

datatype exn = ValueError string | Raised string string

fun str_exn :: "exn \<Rightarrow> string" where
  "str_exn (ValueError msg) = msg"
| "str_exn (Raised cls msg) = msg"

datatype level = INFO | WARNING | ERROR

type_synonym log_record = "level \<times> string"

section \<open>The metric objects of prometheus_client\<close>

text \<open>
  Counter, Gauge and Histogram are classes of the prometheus_client library, which the
  repository imports and does not contain. They are modelled here as the library stores them:
  a labelled metric is a partial map from label values to a child; \<open>labels(...)\<close> creates the
  child on first use. A histogram child holds one count per upper bound (the bucket an
  observation falls into, not yet cumulated) and the sum of the observations; the cumulative
  counts a scrape reports are computed from them by \<open>cumulative\<close>. Floats are modelled as
  reals, counts as naturals, gauge values as integers.
\<close>

datatype bound = Fin real | PosInf

fun le_bound :: "real \<Rightarrow> bound \<Rightarrow> bool" where
  "le_bound amount (Fin b) = (amount \<le> b)"
| "le_bound amount PosInf = True"

record hist_child =
  buckets :: "nat list"
  hsum :: real

record 'k histogram =
  upper_bounds :: "bound list"
  hist_children :: "'k \<rightharpoonup> hist_child"

text \<open>
  Modelled from the spec: the histogram constructor of prometheus_client, which checks the
  bucket sequence it is given, is not in the repository; \<open>RLMetrics.__init__\<close> has no check
  of its own. The spec's words: a histogram has "a fixed, ascending, strictly-positive
  sequence of bucket upper bounds plus one implicit +infinity bucket"; each configured
  sequence is a "strictly increasing sequence of positive numbers"; "invalid bucket
  sequences (non-ascending, non-positive)" fail at construction. \<open>valid_buckets\<close> is the
  spec's valid sequence, and the constructor refuses every other one. The configured bounds
  are finite.
\<close>

definition valid_buckets :: "real list \<Rightarrow> bool" where
  "valid_buckets bs = (sorted_wrt (<) bs \<and> list_all (\<lambda>b. 0 < b) bs)"

definition prepare_buckets :: "real list \<Rightarrow> exn + bound list" where
  "prepare_buckets source_buckets =
     (if valid_buckets source_buckets then Inr (map Fin source_buckets @ [PosInf])
      else Inl (ValueError ''Invalid buckets''))"

definition new_child :: "bound list \<Rightarrow> hist_child" where
  "new_child ubs = \<lparr>buckets = replicate (length ubs) 0, hsum = 0\<rparr>"

definition hist_labels :: "'k histogram \<Rightarrow> 'k \<Rightarrow> hist_child" where
  "hist_labels h k = (case hist_children h k of Some ch \<Rightarrow> ch | None \<Rightarrow> new_child (upper_bounds h))"

text \<open>
  Modelled from the spec: \<open>Histogram.observe\<close> of prometheus_client is not in the repository.
  The spec: "each observation increments the cumulative count of every bucket whose bound is
  \<ge> the observed value, and accumulates a running sum". The library adds the amount to the
  sum and increments the first bucket whose bound the amount does not exceed; a scrape reports
  the running totals of these counts (\<open>cumulative\<close>), which is where the spec's cumulative
  counts come from.
\<close>

fun inc_first :: "real \<Rightarrow> bound list \<Rightarrow> nat list \<Rightarrow> nat list" where
  "inc_first amount (b # bs) (c # cs) =
     (if le_bound amount b then Suc c # cs else c # inc_first amount bs cs)"
| "inc_first amount bs cs = cs"

definition child_observe :: "bound list \<Rightarrow> real \<Rightarrow> hist_child \<Rightarrow> hist_child" where
  "child_observe ubs amount ch =
     ch\<lparr>hsum := hsum ch + amount, buckets := inc_first amount ubs (buckets ch)\<rparr>"

definition hist_observe :: "'k histogram \<Rightarrow> 'k \<Rightarrow> real \<Rightarrow> 'k histogram" where
  "hist_observe h k amount =
     h\<lparr>hist_children := (hist_children h)(k \<mapsto> child_observe (upper_bounds h) amount (hist_labels h k))\<rparr>"

fun cumulative_from :: "nat \<Rightarrow> nat list \<Rightarrow> nat list" where
  "cumulative_from acc [] = []"
| "cumulative_from acc (c # cs) = (acc + c) # cumulative_from (acc + c) cs"

definition cumulative :: "hist_child \<Rightarrow> nat list" where
  "cumulative ch = cumulative_from 0 (buckets ch)"

text \<open>
  Modelled from the spec: \<open>Counter.inc\<close>, \<open>Gauge.inc\<close> and \<open>Gauge.dec\<close> of prometheus_client
  are not in the repository. The spec: a counter is a "monotonically increasing integer per
  unique label combination", a gauge an "arbitrary-direction numeric value per label
  combination" adjusted "by +1/-1". A child that \<open>labels\<close> creates starts at 0.
\<close>

type_synonym 'k counter = "'k \<rightharpoonup> nat"

definition counter_labels :: "'k counter \<Rightarrow> 'k \<Rightarrow> nat" where
  "counter_labels c k = (case c k of Some n \<Rightarrow> n | None \<Rightarrow> 0)"

definition counter_inc :: "'k counter \<Rightarrow> 'k \<Rightarrow> 'k counter" where
  "counter_inc c k = c(k \<mapsto> counter_labels c k + 1)"

type_synonym 'k gauge = "'k \<rightharpoonup> int"

definition gauge_labels :: "'k gauge \<Rightarrow> 'k \<Rightarrow> int" where
  "gauge_labels g k = (case g k of Some v \<Rightarrow> v | None \<Rightarrow> 0)"

definition gauge_inc :: "'k gauge \<Rightarrow> 'k \<Rightarrow> 'k gauge" where
  "gauge_inc g k = g(k \<mapsto> gauge_labels g k + 1)"

definition gauge_dec :: "'k gauge \<Rightarrow> 'k \<Rightarrow> 'k gauge" where
  "gauge_dec g k = g(k \<mapsto> gauge_labels g k - 1)"

section \<open>metrics.py: RLMetrics\<close>

record RLMetrics =
  namespace :: string
  histogram_buckets :: "real list"
  response_size_buckets :: "real list"
  request_latency :: "(string \<times> string) histogram"
  request_count :: "(string \<times> string \<times> string \<times> string) counter"
  requests_in_progress :: "string gauge"
  response_size :: "(string \<times> string) histogram"
  app_info :: "(string \<times> string) list"
  app_started_timestamp :: real

text \<open>The status classification of \<open>observe_request\<close> (the local \<open>error_type\<close>).\<close>

definition error_type :: "int \<Rightarrow> string" where
  "error_type status_code =
     (if 400 \<le> status_code \<and> status_code < 500 then ''client_error''
      else if status_code \<ge> 500 then ''server_error''
      else ''none'')"

text \<open>\<open>str(n)\<close> for a Python int.\<close>

fun str_nat :: "nat \<Rightarrow> string" where
  "str_nat n =
     (if n < 10 then [''0123456789'' ! n]
      else str_nat (n div 10) @ [''0123456789'' ! (n mod 10)])"

declare str_nat.simps [simp del]

definition str_int :: "int \<Rightarrow> string" where
  "str_int i = (if i < 0 then CHR ''-'' # str_nat (nat (- i)) else str_nat (nat i))"

text \<open>
  The state of the Python process that \<open>RLMetrics.__init__\<close> and \<open>get_metrics_registry\<close>
  read and write: the module global \<open>_metrics_instance\<close>, the metric names registered in
  prometheus_client's default \<open>REGISTRY\<close>, the environment variables, the wall clock and the
  records logged. A state that threads through a call is returned with its result; a raised
  exception is \<open>Inl\<close>.
\<close>

record process =
  metrics_instance :: "RLMetrics option"
  REGISTRY :: "string list"
  environ :: "string \<rightharpoonup> string"
  wall_time :: real
  process_log :: "log_record list"

definition and_then ::
  "('s \<Rightarrow> (exn + 'a) \<times> 's) \<Rightarrow> ('a \<Rightarrow> 's \<Rightarrow> (exn + 'b) \<times> 's) \<Rightarrow> 's \<Rightarrow> (exn + 'b) \<times> 's" where
  "and_then m f s = (case m s of (Inl e, s') \<Rightarrow> (Inl e, s') | (Inr a, s') \<Rightarrow> f a s')"

text \<open>
  Modelled from the spec: the constructors of prometheus_client's metric classes are not in
  the repository. A constructor registers the metric's name and raises when the registry
  already holds it ("metric registration duplication, if retried after partial failure");
  a histogram's constructor checks its buckets first, so a refused sequence registers
  nothing.
\<close>

definition register :: "string \<Rightarrow> process \<Rightarrow> (exn + unit) \<times> process" where
  "register name p =
     (if name \<in> set (REGISTRY p)
      then (Inl (ValueError (''Duplicated timeseries in CollectorRegistry: '' @ name)), p)
      else (Inr (), p\<lparr>REGISTRY := name # REGISTRY p\<rparr>))"

definition Histogram :: "string \<Rightarrow> real list \<Rightarrow> process \<Rightarrow> (exn + 'k histogram) \<times> process" where
  "Histogram name bs p =
     (case prepare_buckets bs of
        Inl e \<Rightarrow> (Inl e, p)
      | Inr ubs \<Rightarrow>
          and_then (register name)
            (\<lambda>_ p'. (Inr \<lparr>upper_bounds = ubs, hist_children = Map.empty\<rparr>, p')) p)"

definition metric_name :: "string \<Rightarrow> string \<Rightarrow> string" where
  "metric_name ns base = (if ns \<noteq> [] then ns @ ''_'' @ base else base)"

definition default_histogram_buckets :: "real list" where
  "default_histogram_buckets = [0.005, 0.01, 0.025, 0.05, 0.1, 0.25, 0.5, 1.0, 2.5, 5.0, 10.0]"

definition default_response_size_buckets :: "real list" where
  "default_response_size_buckets = [100, 1000, 10000, 100000, 1000000, 10000000]"

definition info_labels :: "string \<Rightarrow> string \<Rightarrow> (string \<times> string) list" where
  "info_labels app_name app_version =
     (if app_name \<noteq> [] then [(''name'', app_name)] else [])
     @ (if app_version \<noteq> [] then [(''version'', app_version)] else [])"

text \<open>
  \<open>RLMetrics.__init__\<close> with \<open>registry\<close> left at its default, as \<open>get_metrics_registry\<close>
  calls it. The body has no check of its own on the bucket sequences: it stores them and
  hands them to the histogram constructors.
\<close>

definition RLMetrics_init ::
  "string \<Rightarrow> real list option \<Rightarrow> real list option \<Rightarrow> string \<Rightarrow> string
   \<Rightarrow> process \<Rightarrow> (exn + RLMetrics) \<times> process" where
  "RLMetrics_init ns histogram_buckets_arg response_size_buckets_arg app_version app_name =
     (let hb = (case histogram_buckets_arg of None \<Rightarrow> default_histogram_buckets | Some b \<Rightarrow> b);
          rb = (case response_size_buckets_arg of None \<Rightarrow> default_response_size_buckets | Some b \<Rightarrow> b)
      in and_then (Histogram (metric_name ns ''http_request_duration_seconds'') hb) (\<lambda>latency.
         and_then (register (metric_name ns ''http_requests_total'')) (\<lambda>_.
         and_then (register (metric_name ns ''http_requests_in_progress'')) (\<lambda>_.
         and_then (Histogram (metric_name ns ''http_response_size_bytes'') rb) (\<lambda>size.
         and_then (register (metric_name ns ''app'')) (\<lambda>_.
         and_then (register (metric_name ns ''app_started_timestamp_seconds'')) (\<lambda>_ p.
           (Inr \<lparr>namespace = ns,
                 histogram_buckets = hb,
                 response_size_buckets = rb,
                 request_latency = latency,
                 request_count = Map.empty,
                 requests_in_progress = Map.empty,
                 response_size = size,
                 app_info = info_labels app_name app_version,
                 app_started_timestamp = wall_time p\<rparr>,
            p\<lparr>process_log := process_log p @
               [(INFO, ''Initialized RL metrics with namespace='' @ [CHR 0x27] @ ns @ [CHR 0x27]
                       @ '', buckets='' @ str_nat (length hb))]\<rparr>))))))))"

definition getenv :: "process \<Rightarrow> string \<Rightarrow> string \<Rightarrow> string" where
  "getenv p name dflt = (case environ p name of Some v \<Rightarrow> v | None \<Rightarrow> dflt)"

text \<open>
  \<open>get_metrics_registry\<close>. One thread of control is modelled, so the two tests of the
  double-checked locking are one test.
\<close>

definition get_metrics_registry ::
  "string option \<Rightarrow> real list option \<Rightarrow> real list option \<Rightarrow> string option \<Rightarrow> string option
   \<Rightarrow> process \<Rightarrow> (exn + RLMetrics) \<times> process" where
  "get_metrics_registry namespace_arg histogram_buckets_arg response_size_buckets_arg
       app_version_arg app_name_arg p =
     (case metrics_instance p of
        Some m \<Rightarrow> (Inr m, p)
      | None \<Rightarrow>
          (let ns = (case namespace_arg of None \<Rightarrow> getenv p ''RL_METRICS_NAMESPACE'' [] | Some n \<Rightarrow> n);
               app_name = (case app_name_arg of None \<Rightarrow> getenv p ''RL_METRICS_APP_NAME'' [] | Some n \<Rightarrow> n);
               app_version = (case app_version_arg of None \<Rightarrow> getenv p ''RL_METRICS_APP_VERSION'' []
                              | Some v \<Rightarrow> v)
           in and_then
                (RLMetrics_init ns histogram_buckets_arg response_size_buckets_arg app_version app_name)
                (\<lambda>m p'. (Inr m, p'\<lparr>metrics_instance := Some m\<rparr>)) p))"

section \<open>metrics.py: the observation pipeline\<close>

text \<open>
  The state a request is handled in: the RLMetrics object the caller holds, the records logged,
  the reading of \<open>time.perf_counter()\<close>, and which calls into prometheus_client fail.
  \<open>fault w c = Some e\<close> says that the library call \<open>c\<close> raises \<open>e\<close> in this state (resource
  exhaustion in the underlying store, say) and leaves the metric as it was; the code's
  \<open>try\<close>/\<open>except\<close> blocks are about exactly these failures.
\<close>

datatype libcall = LatencyObserve | CountInc | SizeObserve | InProgressInc | InProgressDec

record world =
  metrics :: RLMetrics
  logged :: "log_record list"
  clock :: real
  fault :: "libcall \<Rightarrow> exn option"

definition libcall :: "libcall \<Rightarrow> (RLMetrics \<Rightarrow> RLMetrics) \<Rightarrow> world \<Rightarrow> (exn + unit) \<times> world" where
  "libcall c f w =
     (case fault w c of
        Some e \<Rightarrow> (Inl e, w)
      | None \<Rightarrow> (Inr (), w\<lparr>metrics := f (metrics w)\<rparr>))"

definition log_msg :: "level \<Rightarrow> string \<Rightarrow> world \<Rightarrow> world" where
  "log_msg lvl msg w = w\<lparr>logged := logged w @ [(lvl, msg)]\<rparr>"

text \<open>The body of the \<open>try\<close> of \<open>observe_request\<close>.\<close>

definition observe_request_try ::
  "string \<Rightarrow> string \<Rightarrow> real \<Rightarrow> int \<Rightarrow> int option \<Rightarrow> world \<Rightarrow> (exn + unit) \<times> world" where
  "observe_request_try http_method path duration status_code response_size_arg =
     and_then
       (libcall LatencyObserve
          (\<lambda>m. m\<lparr>request_latency := hist_observe (request_latency m) (http_method, path) duration\<rparr>))
       (\<lambda>_. and_then
          (libcall CountInc
             (\<lambda>m. m\<lparr>request_count :=
                      counter_inc (request_count m)
                        (http_method, path, str_int status_code, error_type status_code)\<rparr>))
          (\<lambda>_. case response_size_arg of
                  None \<Rightarrow> (\<lambda>w. (Inr (), w))
                | Some n \<Rightarrow>
                    libcall SizeObserve
                      (\<lambda>m. m\<lparr>response_size :=
                               hist_observe (response_size m) (http_method, path) (real_of_int n)\<rparr>)))"

definition observe_request ::
  "string \<Rightarrow> string \<Rightarrow> real \<Rightarrow> int \<Rightarrow> int option \<Rightarrow> world \<Rightarrow> (exn + unit) \<times> world" where
  "observe_request http_method path duration status_code response_size_arg w =
     (case observe_request_try http_method path duration status_code response_size_arg w of
        (Inl e, w') \<Rightarrow> (Inr (), log_msg ERROR (''Failed to record metrics: '' @ str_exn e) w')
      | (Inr u, w') \<Rightarrow> (Inr u, w'))"

definition inc_in_progress :: "string \<Rightarrow> world \<Rightarrow> (exn + unit) \<times> world" where
  "inc_in_progress http_method =
     libcall InProgressInc
       (\<lambda>m. m\<lparr>requests_in_progress := gauge_inc (requests_in_progress m) http_method\<rparr>)"

definition dec_in_progress :: "string \<Rightarrow> world \<Rightarrow> (exn + unit) \<times> world" where
  "dec_in_progress http_method =
     libcall InProgressDec
       (\<lambda>m. m\<lparr>requests_in_progress := gauge_dec (requests_in_progress m) http_method\<rparr>)"

definition get_precise_time :: "world \<Rightarrow> real" where
  "get_precise_time w = clock w"

section \<open>flask_middleware.py: normalize_api_paths\<close>

text \<open>
  \<open>re.sub\<close> for the patterns the normalizer uses: a pattern is a sequence of character
  classes, each repeated between a least and a greatest number of times (\<open>None\<close>: unbounded),
  and may end in \<open>$\<close>. Matching is Python's: leftmost, each repetition greedy, giving
  characters back when the rest of the pattern fails. \<open>$\<close> matches at the end of the string
  and before a newline that ends it. \<open>match_atoms\<close> returns the length of the match that
  starts at the head of the string. Characters are bytes: \<open>\d\<close> is an ASCII digit here.
\<close>

type_synonym atom = "(char \<Rightarrow> bool) \<times> nat \<times> nat option"

record pattern =
  atoms :: "atom list"
  at_end :: bool

fun match_atoms :: "atom list \<Rightarrow> bool \<Rightarrow> string \<Rightarrow> nat option" where
  "match_atoms [] anchored s =
     (if anchored then (if s = [] \<or> s = [CHR 0x0A] then Some 0 else None) else Some 0)"
| "match_atoms ((cls, lo, hi) # rest) anchored s =
     (case (case s of
              c # cs \<Rightarrow>
                if hi \<noteq> Some 0 \<and> cls c
                then map_option Suc
                       (match_atoms ((cls, lo - 1, map_option (\<lambda>h. h - 1) hi) # rest) anchored cs)
                else None
            | [] \<Rightarrow> None) of
        Some n \<Rightarrow> Some n
      | None \<Rightarrow> if lo = 0 then match_atoms rest anchored s else None)"

text \<open>
  Every pattern of the normalizer starts with a \<open>/\<close>, so no match is empty; a match of
  length 0 is outside what is modelled and is treated as no match.
\<close>

fun re_sub :: "pattern \<Rightarrow> string \<Rightarrow> string \<Rightarrow> string" where
  "re_sub p repl [] = []"
| "re_sub p repl (c # cs) =
     (case match_atoms (atoms p) (at_end p) (c # cs) of
        Some (Suc n) \<Rightarrow> repl @ re_sub p repl (drop n cs)
      | _ \<Rightarrow> c # re_sub p repl cs)"

definition exactly_one :: "(char \<Rightarrow> bool) \<Rightarrow> atom" where
  "exactly_one cls = (cls, 1, Some 1)"

definition exactly :: "nat \<Rightarrow> (char \<Rightarrow> bool) \<Rightarrow> atom" where
  "exactly n cls = (cls, n, Some n)"

definition one_or_more :: "(char \<Rightarrow> bool) \<Rightarrow> atom" where
  "one_or_more cls = (cls, 1, None)"

definition lit :: "char \<Rightarrow> char \<Rightarrow> bool" where
  "lit x c = (c = x)"

definition digit :: "char \<Rightarrow> bool" where
  "digit c = (c \<in> set ''0123456789'')"

definition hex_digit :: "char \<Rightarrow> bool" where
  "hex_digit c = (c \<in> set ''0123456789abcdefABCDEF'')"

definition alnum :: "char \<Rightarrow> bool" where
  "alnum c = (c \<in> set ''abcdefghijklmnopqrstuvwxyzABCDEFGHIJKLMNOPQRSTUVWXYZ0123456789'')"

definition not_slash :: "char \<Rightarrow> bool" where
  "not_slash c = (c \<noteq> CHR ''/'')"

definition numeric_id_pattern :: pattern where
  "numeric_id_pattern = \<lparr>atoms = [exactly_one (lit CHR ''/''), one_or_more digit], at_end = False\<rparr>"

definition uuid_pattern :: pattern where
  "uuid_pattern =
     \<lparr>atoms = [exactly_one (lit CHR ''/''), exactly 8 hex_digit, exactly_one (lit CHR ''-''), exactly 4 hex_digit,
               exactly_one (lit CHR ''-''), exactly 4 hex_digit, exactly_one (lit CHR ''-''), exactly 4 hex_digit,
               exactly_one (lit CHR ''-''), exactly 12 hex_digit],
      at_end = False\<rparr>"

definition filename_pattern :: pattern where
  "filename_pattern =
     \<lparr>atoms = [exactly_one (lit CHR ''/''), one_or_more not_slash, exactly_one (lit CHR ''.''), one_or_more alnum],
      at_end = True\<rparr>"

definition normalize_api_paths :: "string \<Rightarrow> string" where
  "normalize_api_paths path =
     (let path = re_sub numeric_id_pattern ''/:id'' path;
          path = re_sub uuid_pattern ''/:uuid'' path;
          path = re_sub filename_pattern ''/:filename'' path
      in path)"

section \<open>The middleware adapters\<close>

text \<open>
  What the adapters read of the framework's request and response objects. \<open>req_start_time\<close>
  is the attribute \<open>_rl_metrics_start_time\<close> the Flask hook sets on the request (\<open>None\<close>:
  the attribute is absent); \<open>content_length_header\<close> is \<open>headers.get("Content-Length")\<close>;
  \<open>resp_data\<close> is Flask's \<open>response.data\<close>. The closure variables \<open>path_normalizer\<close> and
  \<open>exclude_paths\<close> are the adapter's configuration; a normalizer returns a path or raises.
\<close>

record request =
  req_method :: string
  req_path :: string
  req_start_time :: "real option"

record response =
  resp_status_code :: int
  content_length_header :: "string option"
  resp_data :: string

record config =
  path_normalizer :: "(string \<Rightarrow> exn + string) option"
  exclude_paths :: "string list"

text \<open>
  \<open>int(s)\<close> for a string: blanks around it, a sign, decimal digits with single underscores
  between them; anything else raises ValueError, the one exception \<open>int\<close> has for a string
  and the one the adapters catch around it. A character is a code point below 256, as in a
  header value; the blanks \<open>int\<close> strips among them are the space, 0x09 to 0x0D, 0x85 and
  0xA0 (not 0x1C to 0x1F).
\<close>

definition is_space :: "char \<Rightarrow> bool" where
  "is_space c = (c \<in> set [CHR '' '', CHR 0x09, CHR 0x0A, CHR 0x0B, CHR 0x0C, CHR 0x0D,
                           CHR 0x85, CHR 0xA0])"

definition strip :: "string \<Rightarrow> string" where
  "strip s = rev (dropWhile is_space (rev (dropWhile is_space s)))"

fun digits_ok :: "bool \<Rightarrow> string \<Rightarrow> bool" where
  "digits_ok after_digit [] = after_digit"
| "digits_ok after_digit (c # cs) =
     (if digit c then digits_ok True cs
      else (c = CHR ''_'' \<and> after_digit \<and> digits_ok False cs))"

definition digits_value :: "string \<Rightarrow> nat" where
  "digits_value ds = foldl (\<lambda>acc c. 10 * acc + (of_char c - 48)) 0 (filter digit ds)"

definition py_int :: "string \<Rightarrow> exn + int" where
  "py_int s =
     (let t = strip s;
          neg = (t \<noteq> [] \<and> hd t = CHR ''-'');
          body = (if t \<noteq> [] \<and> (hd t = CHR ''-'' \<or> hd t = CHR ''+'') then tl t else t)
      in if digits_ok False body
         then Inr (if neg then - int (digits_value body) else int (digits_value body))
         else Inl (ValueError (''invalid literal for int() with base 10: '' @ s)))"

text \<open>The normalization step both adapters share, line for line.\<close>

definition apply_normalizer :: "config \<Rightarrow> string \<Rightarrow> world \<Rightarrow> string \<times> world" where
  "apply_normalizer cfg path w =
     (case path_normalizer cfg of
        None \<Rightarrow> (path, w)
      | Some normalizer \<Rightarrow>
          (case normalizer path of
             Inr path' \<Rightarrow> (path', w)
           | Inl e \<Rightarrow>
               (path, log_msg WARNING (''Path normalizer failed for '' @ path @ '': '' @ str_exn e) w)))"

subsection \<open>flask_middleware.py\<close>

definition flask_exclude_paths :: "string list option \<Rightarrow> string list" where
  "flask_exclude_paths exclude_paths_arg =
     (case exclude_paths_arg of
        None \<Rightarrow> [''/health'', ''/healthz'', ''/metrics'', ''/readiness'', ''/liveness'']
      | Some paths \<Rightarrow> paths)"

definition before_request_handler :: "request \<Rightarrow> world \<Rightarrow> (exn + unit) \<times> request \<times> world" where
  "before_request_handler req w =
     (let req' = req\<lparr>req_start_time := Some (get_precise_time w)\<rparr>
      in case inc_in_progress (req_method req') w of (r, w') \<Rightarrow> (r, req', w'))"

definition flask_response_size :: "response \<Rightarrow> int option" where
  "flask_response_size resp =
     (let from_data = (if resp_data resp \<noteq> [] then Some (int (length (resp_data resp))) else None)
      in case content_length_header resp of
           None \<Rightarrow> from_data
         | Some content_length \<Rightarrow>
             if content_length = [] then from_data
             else (case py_int content_length of Inr n \<Rightarrow> Some n | Inl _ \<Rightarrow> None))"

definition after_request_handler :: "config \<Rightarrow> request \<Rightarrow> response \<Rightarrow> world \<Rightarrow> response \<times> world" where
  "after_request_handler cfg req resp w =
     (let w1 = snd (dec_in_progress (req_method req) w)
      in case req_start_time req of
           None \<Rightarrow> (resp, w1)
         | Some start_time \<Rightarrow>
             (let duration = get_precise_time w1 - start_time;
                  (path, w2) = apply_normalizer cfg (req_path req) w1
              in if path \<in> set (exclude_paths cfg) then (resp, w2)
                 else (case observe_request (req_method req) path duration (resp_status_code resp)
                              (flask_response_size resp) w2 of
                         (Inl e, w3) \<Rightarrow>
                           (resp, log_msg ERROR (''Failed to record metrics for '' @ req_method req
                                                  @ '' '' @ path @ '': '' @ str_exn e) w3)
                       | (Inr _, w3) \<Rightarrow> (resp, w3))))"

subsection \<open>fastapi_middleware.py\<close>

definition fastapi_exclude_paths :: "string list option \<Rightarrow> string list" where
  "fastapi_exclude_paths exclude_paths_arg =
     (case exclude_paths_arg of
        None \<Rightarrow> [''/health'', ''/metrics'', ''/docs'', ''/openapi.json'']
      | Some paths \<Rightarrow>
          if paths = [] then [''/health'', ''/metrics'', ''/docs'', ''/openapi.json''] else paths)"

definition fastapi_response_size :: "response \<Rightarrow> int option" where
  "fastapi_response_size resp =
     (case content_length_header resp of
        None \<Rightarrow> None
      | Some content_length \<Rightarrow>
          if content_length = [] then None
          else (case py_int content_length of Inr n \<Rightarrow> Some n | Inl _ \<Rightarrow> None))"

text \<open>
  \<open>call_next\<close> is the rest of the application: it returns a response or raises, and may change
  the state in any way (it takes time, and other requests are served meanwhile).
\<close>

type_synonym handler = "request \<Rightarrow> world \<Rightarrow> (exn + response) \<times> world"

text \<open>The body of the \<open>try\<close> of \<open>dispatch\<close>.\<close>

definition dispatch_try :: "config \<Rightarrow> request \<Rightarrow> handler \<Rightarrow> real \<Rightarrow> world \<Rightarrow> (exn + response) \<times> world" where
  "dispatch_try cfg req call_next start_time w =
     (case call_next req w of
        (Inl e, w1) \<Rightarrow> (Inl e, w1)
      | (Inr resp, w1) \<Rightarrow>
          (let duration = get_precise_time w1 - start_time;
               (path, w2) = apply_normalizer cfg (req_path req) w1
           in case observe_request (req_method req) path duration (resp_status_code resp)
                     (fastapi_response_size resp) w2 of
                (Inl e, w3) \<Rightarrow> (Inr resp, log_msg ERROR (''Failed to record metrics: '' @ str_exn e) w3)
              | (Inr _, w3) \<Rightarrow> (Inr resp, w3)))"

text \<open>
  \<open>dispatch\<close>: the \<open>finally\<close> block runs after the \<open>try\<close> whatever its outcome; an exception
  it raises replaces that outcome.
\<close>

definition dispatch :: "config \<Rightarrow> request \<Rightarrow> handler \<Rightarrow> world \<Rightarrow> (exn + response) \<times> world" where
  "dispatch cfg req call_next w =
     (if req_path req \<in> set (exclude_paths cfg) then call_next req w
      else (case inc_in_progress (req_method req) w of
              (Inl e, w0) \<Rightarrow> (Inl e, w0)
            | (Inr _, w0) \<Rightarrow>
                (let start_time = get_precise_time w0;
                     (outcome, w1) = dispatch_try cfg req call_next start_time w0
                 in case dec_in_progress (req_method req) w1 of
                      (Inl e, w2) \<Rightarrow> (Inl e, w2)
                    | (Inr _, w2) \<Rightarrow> (outcome, w2))))"

section \<open>Sequences of calls\<close>

text \<open>
  A sequence of \<open>get_metrics_registry\<close> calls, each with arguments of its own, run one after
  the other; the results are returned in order.
\<close>

type_synonym registry_args =
  "string option \<times> real list option \<times> real list option \<times> string option \<times> string option"

fun get_metrics_registry_calls ::
  "registry_args list \<Rightarrow> process \<Rightarrow> (exn + RLMetrics) list \<times> process" where
  "get_metrics_registry_calls [] p = ([], p)"
| "get_metrics_registry_calls ((ns, hb, rb, av, an) # rest) p =
     (case get_metrics_registry ns hb rb av an p of
        (r, p') \<Rightarrow> (case get_metrics_registry_calls rest p' of (rs, p'') \<Rightarrow> (r # rs, p'')))"

section \<open>An invariant of histograms\<close>

text \<open>
  Every child of a histogram has one count per upper bound: \<open>labels\<close> creates it so and
  \<open>observe\<close> keeps it so.
\<close>

definition hist_ok :: "'k histogram \<Rightarrow> bool" where
  "hist_ok h =
     (\<forall>k ch. hist_children h k = Some ch \<longrightarrow> length (buckets ch) = length (upper_bounds h))"

section \<open>Concrete states\<close>

text \<open>
  A process that has constructed nothing yet, the object \<open>RLMetrics\<close> constructs in it for
  the empty namespace and given buckets, and a state in which no library call fails. The
  closed instances of the theorems below are stated on them.
\<close>

definition fresh_process :: process where
  "fresh_process =
     \<lparr>metrics_instance = None, REGISTRY = [], environ = Map.empty, wall_time = 0, process_log = []\<rparr>"

definition constructed :: "real list \<Rightarrow> real list \<Rightarrow> RLMetrics" where
  "constructed hb rb =
     \<lparr>namespace = [],
      histogram_buckets = hb,
      response_size_buckets = rb,
      request_latency = \<lparr>upper_bounds = map Fin hb @ [PosInf], hist_children = Map.empty\<rparr>,
      request_count = Map.empty,
      requests_in_progress = Map.empty,
      response_size = \<lparr>upper_bounds = map Fin rb @ [PosInf], hist_children = Map.empty\<rparr>,
      app_info = [],
      app_started_timestamp = 0\<rparr>"

definition quiet :: "RLMetrics \<Rightarrow> world" where
  "quiet m = \<lparr>metrics = m, logged = [], clock = 0, fault = (\<lambda>_. None)\<rparr>"

section \<open>Properties\<close>

subsection \<open>Histograms\<close>

lemma length_cumulative_from: "length (cumulative_from acc cs) = length cs"
  by (induction cs arbitrary: acc) auto

lemma cumulative_from_Suc: "cumulative_from (Suc acc) cs = map Suc (cumulative_from acc cs)"
  by (induction cs arbitrary: acc) auto

lemma length_inc_first: "length (inc_first v ubs cs) = length cs"
  by (induction v ubs cs rule: inc_first.induct) auto

lemma bump_all:
  "length xs = length bs \<Longrightarrow> list_all (le_bound v) bs
   \<Longrightarrow> map2 (\<lambda>b n. if le_bound v b then Suc n else n) bs xs = map Suc xs"
  by (induction bs arbitrary: xs) (auto simp: length_Suc_conv)

text \<open>
  With bounds in ascending order, incrementing the first bucket that holds the amount
  increments the running total of that bucket and of every later one.
\<close>

lemma cumulative_from_inc_first:
  "length cs = length ubs
   \<Longrightarrow> sorted_wrt (\<lambda>a b. le_bound v a \<longrightarrow> le_bound v b) ubs
   \<Longrightarrow> cumulative_from acc (inc_first v ubs cs)
       = map2 (\<lambda>b n. if le_bound v b then Suc n else n) ubs (cumulative_from acc cs)"
proof (induction ubs arbitrary: cs acc)
  case Nil
  then show ?case by simp
next
  case (Cons b bs)
  then obtain c cs' where cs: "cs = c # cs'" and len: "length cs' = length bs"
    by (auto simp: length_Suc_conv)
  show ?case
  proof (cases "le_bound v b")
    case True
    with Cons.prems have "list_all (le_bound v) bs"
      by (auto simp: list_all_iff)
    with len have "map2 (\<lambda>b n. if le_bound v b then Suc n else n) bs (cumulative_from (acc + c) cs')
                   = map Suc (cumulative_from (acc + c) cs')"
      by (simp add: bump_all length_cumulative_from)
    with True show ?thesis
      by (simp add: cs cumulative_from_Suc)
  next
    case False
    with Cons.IH [of cs' "acc + c"] Cons.prems len show ?thesis
      by (simp add: cs)
  qed
qed

lemma sorted_bounds:
  "sorted bs \<Longrightarrow> sorted_wrt (\<lambda>a b. le_bound v a \<longrightarrow> le_bound v b) (map Fin bs @ [PosInf])"
  by (induction bs) (auto simp: sorted_wrt_append)

lemma hist_labels_observe:
  "hist_labels (hist_observe h k v) k = child_observe (upper_bounds h) v (hist_labels h k)"
  by (simp add: hist_labels_def hist_observe_def)

lemma hist_ok_labels: "hist_ok h \<Longrightarrow> length (buckets (hist_labels h k)) = length (upper_bounds h)"
  by (auto simp: hist_ok_def hist_labels_def new_child_def split: option.splits)

text \<open>The invariant holds of a new histogram and is kept by every observation.\<close>

lemma hist_ok_new: "hist_ok \<lparr>upper_bounds = ubs, hist_children = Map.empty\<rparr>"
  by (simp add: hist_ok_def)

lemma hist_ok_observe: "hist_ok h \<Longrightarrow> hist_ok (hist_observe h k v)"
  by (auto simp: hist_ok_def hist_observe_def hist_labels_def new_child_def child_observe_def
        length_inc_first split: option.splits)

lemma cumulative_observe:
  assumes "sorted bs" and "upper_bounds h = map Fin bs @ [PosInf]" and "hist_ok h"
  shows "cumulative (hist_labels (hist_observe h k v) k)
         = map2 (\<lambda>b n. if le_bound v b then Suc n else n) (upper_bounds h) (cumulative (hist_labels h k))"
  using assms
  by (simp add: hist_labels_observe cumulative_def child_observe_def cumulative_from_inc_first
        hist_ok_labels sorted_bounds)

subsection \<open>Construction and the singleton\<close>

lemma and_then_Inr:
  "and_then m f s = (Inr b, s') \<longleftrightarrow> (\<exists>a s1. m s = (Inr a, s1) \<and> f a s1 = (Inr b, s'))"
  by (auto simp: and_then_def split: prod.splits sum.splits)

lemma returned: "\<not> isl (fst x) \<Longrightarrow> \<exists>a s. x = (Inr a, s)"
  by (cases x, cases "fst x") auto

lemma valid_buckets_sorted: "valid_buckets bs \<Longrightarrow> sorted bs"
  by (simp add: valid_buckets_def strict_sorted_imp_sorted)

text \<open>The constructor's check of a bucket sequence.\<close>

lemma prepare_buckets_raises: "isl (prepare_buckets bs) = (\<not> valid_buckets bs)"
  by (simp add: prepare_buckets_def)

lemma Histogram_raises: "\<not> valid_buckets bs \<Longrightarrow> isl (fst (Histogram name bs p))"
  by (simp add: Histogram_def prepare_buckets_def)

lemma Histogram_Inr:
  "Histogram name bs p = (Inr h, p')
   \<longleftrightarrow> valid_buckets bs
       \<and> h = \<lparr>upper_bounds = map Fin bs @ [PosInf], hist_children = Map.empty\<rparr>
       \<and> register name p = (Inr (), p')"
  by (auto simp: Histogram_def and_then_Inr prepare_buckets_def)

lemma default_buckets_valid:
  "valid_buckets default_histogram_buckets" "valid_buckets default_response_size_buckets"
  by (simp_all add: valid_buckets_def default_histogram_buckets_def default_response_size_buckets_def)

lemma and_then_raises: "isl (fst (m s)) \<Longrightarrow> isl (fst (and_then m f s))"
  by (cases "m s", cases "fst (m s)") (auto simp: and_then_def)

text \<open>
  In a registry that holds nothing yet, \<open>RLMetrics.__init__\<close> raises exactly when one of the
  two histogram constructors refuses its buckets: the six metric names are distinct.
\<close>

lemma RLMetrics_init_raises:
  "REGISTRY p = []
   \<Longrightarrow> isl (fst (RLMetrics_init ns hb_arg rb_arg av an p))
       = (let hb = (case hb_arg of None \<Rightarrow> default_histogram_buckets | Some b \<Rightarrow> b);
              rb = (case rb_arg of None \<Rightarrow> default_response_size_buckets | Some b \<Rightarrow> b)
          in isl (prepare_buckets hb) \<or> isl (prepare_buckets rb))"
  by (auto simp: RLMetrics_init_def Histogram_def and_then_def register_def metric_name_def Let_def
        split: sum.splits)

lemma register_keeps_instance: "metrics_instance (snd (register name p)) = metrics_instance p"
  by (simp add: register_def)

lemma RLMetrics_init_keeps_instance:
  "metrics_instance (snd (RLMetrics_init ns hb rb av an p)) = metrics_instance p"
  by (auto simp: RLMetrics_init_def Histogram_def and_then_def register_def Let_def
        split: sum.splits prod.splits)

lemma RLMetrics_init_config:
  "RLMetrics_init ns hb rb av an p = (Inr m, p')
   \<Longrightarrow> namespace m = ns
       \<and> histogram_buckets m = (case hb of None \<Rightarrow> default_histogram_buckets | Some b \<Rightarrow> b)
       \<and> response_size_buckets m = (case rb of None \<Rightarrow> default_response_size_buckets | Some b \<Rightarrow> b)
       \<and> app_info m = info_labels an av"
  by (auto simp: RLMetrics_init_def and_then_Inr Let_def)

text \<open>
  Every object \<open>RLMetrics.__init__\<close> returns has histograms whose bounds are its ascending
  bucket sequences followed by +infinity, with the invariant.
\<close>

lemma RLMetrics_init_histograms:
  "RLMetrics_init ns hb rb av an p = (Inr m, p')
   \<Longrightarrow> sorted (histogram_buckets m)
       \<and> upper_bounds (request_latency m) = map Fin (histogram_buckets m) @ [PosInf]
       \<and> hist_ok (request_latency m)
       \<and> sorted (response_size_buckets m)
       \<and> upper_bounds (response_size m) = map Fin (response_size_buckets m) @ [PosInf]
       \<and> hist_ok (response_size m)"
  by (auto simp: RLMetrics_init_def and_then_Inr Histogram_Inr Let_def hist_ok_def
        valid_buckets_sorted)

lemma constructed_by_init:
  "valid_buckets hb \<Longrightarrow> valid_buckets rb
   \<Longrightarrow> fst (RLMetrics_init [] (Some hb) (Some rb) [] [] fresh_process) = Inr (constructed hb rb)"
  by (simp add: RLMetrics_init_def Histogram_def and_then_def register_def metric_name_def
        prepare_buckets_def fresh_process_def constructed_def info_labels_def Let_def)

lemma constructed_ok:
  "hist_ok (request_latency (constructed hb rb))" "hist_ok (response_size (constructed hb rb))"
  by (simp_all add: constructed_def hist_ok_def)

lemma get_existing: "metrics_instance p = Some m \<Longrightarrow> get_metrics_registry ns hb rb av an p = (Inr m, p)"
  by (simp add: get_metrics_registry_def)

lemma calls_existing:
  "metrics_instance p = Some m
   \<Longrightarrow> get_metrics_registry_calls calls p = (replicate (length calls) (Inr m), p)"
  by (induction calls) (auto simp: get_existing)

lemma get_first_raises:
  "metrics_instance p = None
   \<Longrightarrow> isl (fst (get_metrics_registry ns hb rb av an p))
       = isl (fst (RLMetrics_init
                (case ns of None \<Rightarrow> getenv p ''RL_METRICS_NAMESPACE'' [] | Some n \<Rightarrow> n) hb rb
                (case av of None \<Rightarrow> getenv p ''RL_METRICS_APP_VERSION'' [] | Some v \<Rightarrow> v)
                (case an of None \<Rightarrow> getenv p ''RL_METRICS_APP_NAME'' [] | Some n \<Rightarrow> n) p))"
  by (auto simp: get_metrics_registry_def and_then_def Let_def split: prod.splits sum.splits)

subsection \<open>What one observation changes\<close>

lemma observe_request_returns: "fst (observe_request m p d sc rs w) = Inr ()"
  by (simp add: observe_request_def split: prod.splits sum.splits)

lemma observe_request_latency:
  "fault w LatencyObserve = None
   \<Longrightarrow> request_latency (metrics (snd (observe_request m p v sc rs w)))
       = hist_observe (request_latency (metrics w)) (m, p) v"
  by (auto simp: observe_request_def observe_request_try_def and_then_def libcall_def log_msg_def
        split: prod.splits sum.splits option.splits)

text \<open>When no library call fails, \<open>observe_request\<close> is its three mutations.\<close>

lemma observe_request_quiet:
  "fault w = (\<lambda>_. None)
   \<Longrightarrow> observe_request m p d sc rs w
       = (Inr (), w\<lparr>metrics := (metrics w)
            \<lparr>request_latency := hist_observe (request_latency (metrics w)) (m, p) d,
             request_count := counter_inc (request_count (metrics w)) (m, p, str_int sc, error_type sc),
             response_size := (case rs of None \<Rightarrow> response_size (metrics w)
                               | Some n \<Rightarrow> hist_observe (response_size (metrics w)) (m, p) (real_of_int n))\<rparr>\<rparr>)"
  by (cases rs) (simp_all add: observe_request_def observe_request_try_def and_then_def libcall_def)

lemma observe_request_keeps:
  "requests_in_progress (metrics (snd (observe_request m p d sc rs w))) = requests_in_progress (metrics w)"
  "fault (snd (observe_request m p d sc rs w)) = fault w"
  by (auto simp: observe_request_def observe_request_try_def and_then_def libcall_def log_msg_def
        split: prod.splits sum.splits option.splits)

subsection \<open>The adapters\<close>

lemma apply_normalizer_fails:
  "path_normalizer cfg = Some f \<Longrightarrow> f path = Inl e
   \<Longrightarrow> apply_normalizer cfg path w
       = (path, log_msg WARNING (''Path normalizer failed for '' @ path @ '': '' @ str_exn e) w)"
  by (simp add: apply_normalizer_def)

lemma apply_normalizer_keeps:
  "metrics (snd (apply_normalizer cfg path w)) = metrics w"
  "fault (snd (apply_normalizer cfg path w)) = fault w"
  by (auto simp: apply_normalizer_def log_msg_def split: option.splits sum.splits)

text \<open>
  The FastAPI adapter hands an excluded request to the application and does nothing else.
\<close>

lemma dispatch_excluded:
  "req_path req \<in> set (exclude_paths cfg) \<Longrightarrow> dispatch cfg req call_next w = call_next req w"
  by (simp add: dispatch_def)

text \<open>
  The FastAPI adapter pairs the increment and the decrement on every outcome of the
  application: \<open>call_next\<close> runs with the gauge incremented, and whether it returns or raises,
  the gauge it leaves is decremented once.
\<close>

lemma dispatch_pairs_gauge:
  assumes "req_path req \<notin> set (exclude_paths cfg)"
    and "fault w InProgressInc = None"
    and "call_next req (w\<lparr>metrics := (metrics w)\<lparr>requests_in_progress :=
            gauge_inc (requests_in_progress (metrics w)) (req_method req)\<rparr>\<rparr>) = (outcome, w1)"
    and "fault w1 InProgressDec = None"
  shows "requests_in_progress (metrics (snd (dispatch cfg req call_next w)))
         = gauge_dec (requests_in_progress (metrics w1)) (req_method req)"
  using assms
  by (cases outcome)
     (simp_all add: dispatch_def dispatch_try_def inc_in_progress_def dec_in_progress_def libcall_def
        Let_def case_prod_beta get_precise_time_def observe_request_keeps apply_normalizer_keeps
        observe_request_returns)

text \<open>
  The Flask hooks move the gauge for every request, whatever its path and whatever the
  exclusion set: the first increments it, the second decrements it, also for a request the
  first never saw.
\<close>

lemma before_request_increments:
  "fault w InProgressInc = None
   \<Longrightarrow> requests_in_progress (metrics (snd (snd (before_request_handler req w))))
       = gauge_inc (requests_in_progress (metrics w)) (req_method req)"
  by (simp add: before_request_handler_def inc_in_progress_def libcall_def Let_def)

lemma after_request_decrements:
  "fault w InProgressDec = None
   \<Longrightarrow> requests_in_progress (metrics (snd (after_request_handler cfg req resp w)))
       = gauge_dec (requests_in_progress (metrics w)) (req_method req)"
  by (simp add: after_request_handler_def dec_in_progress_def libcall_def Let_def case_prod_beta
        observe_request_keeps apply_normalizer_keeps log_msg_def
        split: option.splits sum.splits prod.splits)

lemma gauge_inc_dec: "gauge_labels (gauge_dec (gauge_inc g k) k) k = gauge_labels g k"
  by (simp add: gauge_dec_def gauge_inc_def gauge_labels_def)

subsection \<open>Values on concrete inputs\<close>

lemma str_int_200: "str_int 200 = ''200''"
  by code_simp

lemma py_int_12: "py_int ''12'' = Inr 12"
  by code_simp

subsection \<open>The claims\<close>

text \<open>
  C1 fails in the Flask adapter. Its hooks take no account of the exclusion set when they
  touch the in-progress gauge: for \<open>GET /health\<close>, a path the default set excludes,
  \<open>before_request_handler\<close> creates the gauge child of \<open>GET\<close> and increments it, and
  \<open>after_request_handler\<close> decrements it. (The FastAPI adapter does what the claim says:
  \<open>dispatch_excluded\<close>.)
\<close>

theorem flask_excluded_path_moves_gauge:
  "req_path \<lparr>req_method = ''GET'', req_path = ''/health'', req_start_time = None\<rparr>
     \<in> set (flask_exclude_paths None)
   \<and> requests_in_progress (metrics (quiet (constructed [0.1, 1] [100]))) ''GET'' = None
   \<and> requests_in_progress (metrics (snd (snd (before_request_handler
         \<lparr>req_method = ''GET'', req_path = ''/health'', req_start_time = None\<rparr>
         (quiet (constructed [0.1, 1] [100])))))) ''GET''
     = Some 1
   \<and> requests_in_progress (metrics (snd (after_request_handler
         \<lparr>path_normalizer = None, exclude_paths = flask_exclude_paths None\<rparr>
         (fst (snd (before_request_handler
            \<lparr>req_method = ''GET'', req_path = ''/health'', req_start_time = None\<rparr>
            (quiet (constructed [0.1, 1] [100])))))
         \<lparr>resp_status_code = 200, content_length_header = None, resp_data = ''ok''\<rparr>
         (snd (snd (before_request_handler
            \<lparr>req_method = ''GET'', req_path = ''/health'', req_start_time = None\<rparr>
            (quiet (constructed [0.1, 1] [100])))))))) ''GET''
     = Some 0"
  by (simp add: before_request_handler_def after_request_handler_def apply_normalizer_def
        flask_exclude_paths_def inc_in_progress_def dec_in_progress_def libcall_def quiet_def
        constructed_def get_precise_time_def gauge_inc_def gauge_dec_def gauge_labels_def Let_def)

text \<open>
  C2 fails in the Flask adapter. \<open>after_request_handler\<close> decrements the gauge before it
  tests whether \<open>before_request_handler\<close> ran for this request (the start time it would have
  set is absent). For such a request, here \<open>GET /api/users\<close> answered 401 before the hook
  was reached, there is one decrement and no increment: the gauge of \<open>GET\<close> goes from nothing
  to -1, and nothing else is recorded. (The FastAPI adapter pairs the two calls:
  \<open>dispatch_pairs_gauge\<close>.)
\<close>

theorem flask_decrement_without_increment:
  "requests_in_progress (metrics (snd (after_request_handler
         \<lparr>path_normalizer = None, exclude_paths = flask_exclude_paths None\<rparr>
         \<lparr>req_method = ''GET'', req_path = ''/api/users'', req_start_time = None\<rparr>
         \<lparr>resp_status_code = 401, content_length_header = None, resp_data = ''denied''\<rparr>
         (quiet (constructed [0.1, 1] [100]))))) ''GET''
     = Some (- 1)
   \<and> request_count (metrics (snd (after_request_handler
         \<lparr>path_normalizer = None, exclude_paths = flask_exclude_paths None\<rparr>
         \<lparr>req_method = ''GET'', req_path = ''/api/users'', req_start_time = None\<rparr>
         \<lparr>resp_status_code = 401, content_length_header = None, resp_data = ''denied''\<rparr>
         (quiet (constructed [0.1, 1] [100]))))) (''GET'', ''/api/users'', ''401'', ''client_error'')
     = None"
  by (simp add: after_request_handler_def dec_in_progress_def libcall_def quiet_def
        constructed_def gauge_dec_def gauge_labels_def Let_def)

text \<open>
  C3: once a call of \<open>get_metrics_registry\<close> in a process without an instance has returned
  an instance, every later call returns that instance, whatever its arguments, and changes
  nothing: nothing is constructed, registered or checked. The instance holds the
  configuration of the first call (an argument left out is read from the environment): its
  namespace, its two bucket sequences, which are also the bounds of its two histograms, and
  the application's name and version, each recorded when it is not empty.
\<close>

theorem singleton_idempotent:
  assumes "metrics_instance p = None"
    and "get_metrics_registry ns hb rb av an p = (Inr m, p')"
  shows "get_metrics_registry_calls calls p' = (replicate (length calls) (Inr m), p')
         \<and> metrics_instance p' = Some m
         \<and> namespace m = (case ns of None \<Rightarrow> getenv p ''RL_METRICS_NAMESPACE'' [] | Some n \<Rightarrow> n)
         \<and> histogram_buckets m = (case hb of None \<Rightarrow> default_histogram_buckets | Some b \<Rightarrow> b)
         \<and> response_size_buckets m = (case rb of None \<Rightarrow> default_response_size_buckets | Some b \<Rightarrow> b)
         \<and> upper_bounds (request_latency m)
             = map Fin (case hb of None \<Rightarrow> default_histogram_buckets | Some b \<Rightarrow> b) @ [PosInf]
         \<and> upper_bounds (response_size m)
             = map Fin (case rb of None \<Rightarrow> default_response_size_buckets | Some b \<Rightarrow> b) @ [PosInf]
         \<and> app_info m
             = (let app_name = (case an of None \<Rightarrow> getenv p ''RL_METRICS_APP_NAME'' [] | Some n \<Rightarrow> n);
                    app_version = (case av of None \<Rightarrow> getenv p ''RL_METRICS_APP_VERSION'' [] | Some v \<Rightarrow> v)
                in (if app_name = [] then [] else [(''name'', app_name)])
                   @ (if app_version = [] then [] else [(''version'', app_version)]))"
proof -
  from assms obtain p1 where
    init: "RLMetrics_init (case ns of None \<Rightarrow> getenv p ''RL_METRICS_NAMESPACE'' [] | Some n \<Rightarrow> n) hb rb
             (case av of None \<Rightarrow> getenv p ''RL_METRICS_APP_VERSION'' [] | Some v \<Rightarrow> v)
             (case an of None \<Rightarrow> getenv p ''RL_METRICS_APP_NAME'' [] | Some n \<Rightarrow> n) p = (Inr m, p1)"
    and p': "p' = p1\<lparr>metrics_instance := Some m\<rparr>"
    by (auto simp: get_metrics_registry_def and_then_Inr Let_def)
  from p' have inst: "metrics_instance p' = Some m" by simp
  from RLMetrics_init_config [OF init] RLMetrics_init_histograms [OF init]
       calls_existing [OF inst] inst
  show ?thesis
    by (simp add: info_labels_def Let_def)
qed

text \<open>
  Three calls in a fresh process: the second asks for another namespace, another identity and
  buckets the constructor would refuse, the third for the defaults; both get the instance of
  the first, which holds the first call's namespace, buckets and identity.
\<close>

theorem singleton_idempotent_witness:
  "(case get_metrics_registry_calls
           [(Some ''shop'', Some [0.1, 1], None, Some ''1.0'', Some ''api''),
            (Some ''other'', Some [5, 1], Some [], Some ''2.0'', Some ''web''),
            (None, None, None, None, None)] fresh_process of
      (rs, q) \<Rightarrow> rs ! 1 = rs ! 0 \<and> rs ! 2 = rs ! 0 \<and> \<not> isl (rs ! 0)
                 \<and> namespace (projr (rs ! 0)) = ''shop''
                 \<and> histogram_buckets (projr (rs ! 0)) = [0.1, 1]
                 \<and> response_size_buckets (projr (rs ! 0)) = default_response_size_buckets
                 \<and> upper_bounds (request_latency (projr (rs ! 0))) = [Fin 0.1, Fin 1, PosInf]
                 \<and> app_info (projr (rs ! 0)) = [(''name'', ''api''), (''version'', ''1.0'')])"
proof -
  have none: "metrics_instance fresh_process = None"
    by (simp add: fresh_process_def)
  have reg: "REGISTRY fresh_process = []"
    by (simp add: fresh_process_def)
  have ok: "valid_buckets [0.1, 1]"
    by (simp add: valid_buckets_def)
  have "\<not> isl (fst (get_metrics_registry (Some ''shop'') (Some [0.1, 1]) None (Some ''1.0'') (Some ''api'')
                     fresh_process))"
    by (simp add: get_first_raises [OF none] RLMetrics_init_raises [OF reg] prepare_buckets_raises
          default_buckets_valid ok)
  then obtain m p' where first:
    "get_metrics_registry (Some ''shop'') (Some [0.1, 1]) None (Some ''1.0'') (Some ''api'') fresh_process
     = (Inr m, p')"
    using returned by blast
  from singleton_idempotent [OF none first,
      of "[(Some ''other'', Some [5, 1], Some [], Some ''2.0'', Some ''web''), (None, None, None, None, None)]"]
  show ?thesis
    by (simp add: first)
qed

text \<open>
  C4: the status classification of \<open>observe_request\<close> is total, with the three classes the
  spec gives, and it is the \<open>error_type\<close> label of the counter child that \<open>observe_request\<close>
  increments.
\<close>

theorem error_type_classification:
  "(error_type status_code = ''client_error'') = (400 \<le> status_code \<and> status_code < 500)
   \<and> (error_type status_code = ''server_error'') = (status_code \<ge> 500)
   \<and> (error_type status_code = ''none'') = (status_code < 400)
   \<and> error_type status_code \<in> {''client_error'', ''server_error'', ''none''}
   \<and> request_count (metrics (snd (observe_request http_method path duration status_code response_size_arg
          (w\<lparr>fault := (\<lambda>_. None)\<rparr>))))
       = counter_inc (request_count (metrics w))
           (http_method, path, str_int status_code, error_type status_code)"
proof -
  have "request_count (metrics (snd (observe_request http_method path duration status_code response_size_arg
          (w\<lparr>fault := (\<lambda>_. None)\<rparr>))))
       = counter_inc (request_count (metrics w))
           (http_method, path, str_int status_code, error_type status_code)"
    by (simp add: observe_request_quiet)
  then show ?thesis
    by (auto simp: error_type_def)
qed

text \<open>
  C5: a bucket sequence that is not valid, for the latency histogram or for the size
  histogram, makes \<open>RLMetrics\<close> construction raise, whatever the registry holds, and so makes
  the first \<open>get_metrics_registry\<close> raise and leave the process without an instance. The
  check is the histogram constructor's; \<open>RLMetrics.__init__\<close> hands it the sequences and
  lets its exception through.
\<close>

theorem invalid_buckets_raise:
  assumes "\<not> valid_buckets (case hb_arg of None \<Rightarrow> default_histogram_buckets | Some b \<Rightarrow> b)
           \<or> \<not> valid_buckets (case rb_arg of None \<Rightarrow> default_response_size_buckets | Some b \<Rightarrow> b)"
  shows "isl (fst (RLMetrics_init ns hb_arg rb_arg av an p))
         \<and> (metrics_instance p = None
              \<longrightarrow> isl (fst (get_metrics_registry ns_arg hb_arg rb_arg av_arg an_arg p))
                  \<and> metrics_instance (snd (get_metrics_registry ns_arg hb_arg rb_arg av_arg an_arg p)) = None)"
proof -
  have init: "isl (fst (RLMetrics_init ns' hb_arg rb_arg av' an' p))" for ns' av' an'
    using assms
    by (auto simp: RLMetrics_init_def Histogram_def and_then_def register_def prepare_buckets_def
          Let_def split: sum.splits)
  have "isl (fst (get_metrics_registry ns_arg hb_arg rb_arg av_arg an_arg p))
        \<and> metrics_instance (snd (get_metrics_registry ns_arg hb_arg rb_arg av_arg an_arg p)) = None"
    if none: "metrics_instance p = None"
  proof -
    let ?ns = "case ns_arg of None \<Rightarrow> getenv p ''RL_METRICS_NAMESPACE'' [] | Some n \<Rightarrow> n"
    let ?av = "case av_arg of None \<Rightarrow> getenv p ''RL_METRICS_APP_VERSION'' [] | Some v \<Rightarrow> v"
    let ?an = "case an_arg of None \<Rightarrow> getenv p ''RL_METRICS_APP_NAME'' [] | Some n \<Rightarrow> n"
    obtain e p1 where r: "RLMetrics_init ?ns hb_arg rb_arg ?av ?an p = (Inl e, p1)"
      using init [of ?ns ?av ?an]
      by (cases "RLMetrics_init ?ns hb_arg rb_arg ?av ?an p",
          cases "fst (RLMetrics_init ?ns hb_arg rb_arg ?av ?an p)") auto
    have keep: "metrics_instance p1 = metrics_instance p"
      using RLMetrics_init_keeps_instance [of ?ns hb_arg rb_arg ?av ?an p] r by simp
    show ?thesis
      using none r keep by (simp add: get_metrics_registry_def and_then_def Let_def)
  qed
  with init show ?thesis by blast
qed

text \<open>
  Unsorted latency buckets, latency buckets with a negative bound, and size buckets that
  start at zero: construction raises for each, and a first \<open>get_metrics_registry\<close> with the
  negative bound leaves no instance behind.
\<close>

theorem invalid_buckets_raise_witness:
  "isl (fst (RLMetrics_init ''shop'' (Some [2, 1]) None [] [] fresh_process))
   \<and> isl (fst (RLMetrics_init ''shop'' (Some [-1, 1 / 2]) None [] [] fresh_process))
   \<and> isl (fst (RLMetrics_init ''shop'' None (Some [0, 100]) [] [] fresh_process))
   \<and> isl (fst (get_metrics_registry None (Some [-1, 1 / 2]) None None None fresh_process))
   \<and> metrics_instance (snd (get_metrics_registry None (Some [-1, 1 / 2]) None None None fresh_process))
       = None"
proof -
  have a: "\<not> valid_buckets (case Some [2, 1] of None \<Rightarrow> default_histogram_buckets | Some b \<Rightarrow> b)
           \<or> \<not> valid_buckets (case None of None \<Rightarrow> default_response_size_buckets | Some b \<Rightarrow> b)"
    by (simp add: valid_buckets_def)
  have b: "\<not> valid_buckets (case Some [-1, 1 / 2] of None \<Rightarrow> default_histogram_buckets | Some b \<Rightarrow> b)
           \<or> \<not> valid_buckets (case None of None \<Rightarrow> default_response_size_buckets | Some b \<Rightarrow> b)"
    by (simp add: valid_buckets_def)
  have c: "\<not> valid_buckets (case None of None \<Rightarrow> default_histogram_buckets | Some b \<Rightarrow> b)
           \<or> \<not> valid_buckets (case Some [0, 100] of None \<Rightarrow> default_response_size_buckets | Some b \<Rightarrow> b)"
    by (simp add: valid_buckets_def)
  have none: "metrics_instance fresh_process = None"
    by (simp add: fresh_process_def)
  from invalid_buckets_raise [OF a, of "''shop''" "[]" "[]" fresh_process]
       invalid_buckets_raise [OF b, of "''shop''" "[]" "[]" fresh_process None None None]
       invalid_buckets_raise [OF c, of "''shop''" "[]" "[]" fresh_process]
       none
  show ?thesis
    by simp
qed

text \<open>
  C6: \<open>observe_request\<close> never raises, whichever calls into the library fail: an
  exception raised in its \<open>try\<close> is logged at error level and discarded.
\<close>

theorem observe_request_never_raises:
  "fst (observe_request http_method path duration status_code response_size_arg w) = Inr ()
   \<and> (\<forall>e w'. observe_request_try http_method path duration status_code response_size_arg w = (Inl e, w')
        \<longrightarrow> snd (observe_request http_method path duration status_code response_size_arg w)
            = log_msg ERROR (''Failed to record metrics: '' @ str_exn e) w')"
  by (simp add: observe_request_def split: prod.splits sum.splits)

text \<open>The counter's increment fails for lack of memory: the call returns, and logs.\<close>

theorem observe_request_never_raises_witness:
  "fst (observe_request ''GET'' ''/x'' 0.1 200 None
          ((quiet (constructed [1] [1]))
             \<lparr>fault := (\<lambda>c. if c = CountInc then Some (Raised ''MemoryError'' ''out of memory'') else None)\<rparr>))
     = Inr ()
   \<and> logged (snd (observe_request ''GET'' ''/x'' 0.1 200 None
          ((quiet (constructed [1] [1]))
             \<lparr>fault := (\<lambda>c. if c = CountInc then Some (Raised ''MemoryError'' ''out of memory'') else None)\<rparr>)))
     = [(ERROR, ''Failed to record metrics: out of memory'')]"
  using observe_request_never_raises [of "''GET''" "''/x''" "0.1" 200 None
     "(quiet (constructed [1] [1]))
        \<lparr>fault := (\<lambda>c. if c = CountInc then Some (Raised ''MemoryError'' ''out of memory'') else None)\<rparr>"]
  by (simp add: observe_request_try_def and_then_def libcall_def quiet_def log_msg_def)

text \<open>
  C7 fails for a UUID that starts with a decimal digit. The first pass replaces \<open>/550\<close>, the
  slash and the digits that follow it, by \<open>/:id\<close>; what is left of the segment is no UUID
  for the second pass, and the path comes out as \<open>/users/:ide8400-...\<close>, not \<open>/users/:uuid\<close>.
\<close>

theorem uuid_with_leading_digit_not_normalized:
  "normalize_api_paths ''/users/550e8400-e29b-41d4-a716-446655440000''
     = ''/users/:ide8400-e29b-41d4-a716-446655440000''"
  by code_simp

text \<open>
  C8, for a request that is not excluded: when the normalizer raises on the request's path,
  both adapters log the warning and record the request under the path as it came: the
  latency observation, the counter increment, and the size observation when the response
  gives a size. The Flask hook is taken for a request whose start time was recorded, the
  FastAPI middleware for an application that returned a response: where the normalizer is
  called at all. No library call fails.
\<close>

theorem normalizer_failure_falls_back:
  assumes "path_normalizer cfg = Some f"
    and "f (req_path req) = Inl e"
    and "req_path req \<notin> set (exclude_paths cfg)"
    and "fault w = (\<lambda>_. None)"
    and "req_start_time req = Some t0"
    and "call_next req (snd (inc_in_progress (req_method req) w)) = (Inr resp, w1)"
    and "fault w1 = (\<lambda>_. None)"
  shows
    "(let (r, w') = after_request_handler cfg req resp w
      in r = resp
         \<and> logged w' = logged w @ [(WARNING, ''Path normalizer failed for '' @ req_path req @ '': '' @ str_exn e)]
         \<and> request_latency (metrics w')
             = hist_observe (request_latency (metrics w)) (req_method req, req_path req) (clock w - t0)
         \<and> request_count (metrics w')
             = counter_inc (request_count (metrics w))
                 (req_method req, req_path req, str_int (resp_status_code resp), error_type (resp_status_code resp))
         \<and> response_size (metrics w')
             = (case flask_response_size resp of
                  None \<Rightarrow> response_size (metrics w)
                | Some n \<Rightarrow> hist_observe (response_size (metrics w)) (req_method req, req_path req) (real_of_int n)))
     \<and> (let (r, w') = dispatch cfg req call_next w
        in r = Inr resp
           \<and> logged w' = logged w1 @ [(WARNING, ''Path normalizer failed for '' @ req_path req @ '': '' @ str_exn e)]
           \<and> request_latency (metrics w')
               = hist_observe (request_latency (metrics w1)) (req_method req, req_path req) (clock w1 - clock w)
           \<and> request_count (metrics w')
               = counter_inc (request_count (metrics w1))
                   (req_method req, req_path req, str_int (resp_status_code resp), error_type (resp_status_code resp))
           \<and> response_size (metrics w')
               = (case fastapi_response_size resp of
                    None \<Rightarrow> response_size (metrics w1)
                  | Some n \<Rightarrow> hist_observe (response_size (metrics w1)) (req_method req, req_path req) (real_of_int n)))"
  using assms
  by (simp add: after_request_handler_def dispatch_def dispatch_try_def Let_def
        apply_normalizer_fails observe_request_quiet
        inc_in_progress_def dec_in_progress_def libcall_def log_msg_def get_precise_time_def
        split: option.splits)

text \<open>
  The spec's scenario: the normalizer raises for \<open>/weird\<close>; the warning is logged and the
  request is counted under \<open>/weird\<close>, in both adapters; the Flask hook observes the 12 bytes
  of the Content-Length header in the first size bucket.
\<close>

theorem normalizer_failure_falls_back_witness:
  "logged (snd (after_request_handler
       \<lparr>path_normalizer = Some (\<lambda>p. Inl (Raised ''KeyError'' ''no route'')),
        exclude_paths = flask_exclude_paths None\<rparr>
       \<lparr>req_method = ''GET'', req_path = ''/weird'', req_start_time = Some 0\<rparr>
       \<lparr>resp_status_code = 200, content_length_header = Some ''12'', resp_data = ''hello''\<rparr>
       (quiet (constructed [0.1, 1] [100]))))
     = [(WARNING, ''Path normalizer failed for /weird: no route'')]
   \<and> request_count (metrics (snd (after_request_handler
       \<lparr>path_normalizer = Some (\<lambda>p. Inl (Raised ''KeyError'' ''no route'')),
        exclude_paths = flask_exclude_paths None\<rparr>
       \<lparr>req_method = ''GET'', req_path = ''/weird'', req_start_time = Some 0\<rparr>
       \<lparr>resp_status_code = 200, content_length_header = Some ''12'', resp_data = ''hello''\<rparr>
       (quiet (constructed [0.1, 1] [100]))))) (''GET'', ''/weird'', ''200'', ''none'')
     = Some 1
   \<and> hist_labels (response_size (metrics (snd (after_request_handler
       \<lparr>path_normalizer = Some (\<lambda>p. Inl (Raised ''KeyError'' ''no route'')),
        exclude_paths = flask_exclude_paths None\<rparr>
       \<lparr>req_method = ''GET'', req_path = ''/weird'', req_start_time = Some 0\<rparr>
       \<lparr>resp_status_code = 200, content_length_header = Some ''12'', resp_data = ''hello''\<rparr>
       (quiet (constructed [0.1, 1] [100])))))) (''GET'', ''/weird'')
     = \<lparr>buckets = [1, 0], hsum = 12\<rparr>
   \<and> request_count (metrics (snd (dispatch
       \<lparr>path_normalizer = Some (\<lambda>p. Inl (Raised ''KeyError'' ''no route'')),
        exclude_paths = flask_exclude_paths None\<rparr>
       \<lparr>req_method = ''GET'', req_path = ''/weird'', req_start_time = Some 0\<rparr>
       (\<lambda>r w. (Inr \<lparr>resp_status_code = 200, content_length_header = Some ''12'', resp_data = ''hello''\<rparr>,
                w\<lparr>clock := 1 / 2\<rparr>))
       (quiet (constructed [0.1, 1] [100]))))) (''GET'', ''/weird'', ''200'', ''none'')
     = Some 1"
proof -
  let ?f = "\<lambda>p :: string. (Inl (Raised ''KeyError'' ''no route'') :: exn + string)"
  let ?cfg = "\<lparr>path_normalizer = Some ?f, exclude_paths = flask_exclude_paths None\<rparr>"
  let ?req = "\<lparr>req_method = ''GET'', req_path = ''/weird'', req_start_time = Some 0\<rparr>"
  let ?resp = "\<lparr>resp_status_code = 200, content_length_header = Some ''12'', resp_data = ''hello''\<rparr>"
  let ?w = "quiet (constructed [0.1, 1] [100])"
  let ?next = "\<lambda>(r :: request) w. (Inr ?resp :: exn + response, w\<lparr>clock := 1 / 2\<rparr>)"
  let ?w1 = "(snd (inc_in_progress (req_method ?req) ?w))\<lparr>clock := 1 / 2\<rparr>"
  have h1: "path_normalizer ?cfg = Some ?f" by simp
  have h2: "?f (req_path ?req) = Inl (Raised ''KeyError'' ''no route'')" by simp
  have h3: "req_path ?req \<notin> set (exclude_paths ?cfg)" by (simp add: flask_exclude_paths_def)
  have h4: "fault ?w = (\<lambda>_. None)" by (simp add: quiet_def)
  have h5: "req_start_time ?req = Some 0" by simp
  have h6: "?next ?req (snd (inc_in_progress (req_method ?req) ?w)) = (Inr ?resp, ?w1)" by simp
  have h7: "fault ?w1 = (\<lambda>_. None)"
    by (simp add: quiet_def inc_in_progress_def libcall_def)
  note t = normalizer_failure_falls_back
      [of ?cfg ?f ?req "Raised ''KeyError'' ''no route''" ?w 0 ?next ?resp ?w1,
       OF h1 h2 h3 h4 h5 h6 h7, unfolded Let_def case_prod_beta]
  have l: "logged ?w = []" by (simp add: quiet_def)
  have c: "request_count (metrics ?w) = Map.empty" by (simp add: quiet_def constructed_def)
  have c1: "request_count (metrics ?w1) = Map.empty"
    by (simp add: quiet_def constructed_def inc_in_progress_def libcall_def)
  have c2: "request_count (metrics (snd (inc_in_progress ''GET'' ?w))) = Map.empty"
    by (simp add: quiet_def constructed_def inc_in_progress_def libcall_def)
  have sz: "flask_response_size ?resp = Some 12"
    by (simp add: flask_response_size_def py_int_12)
  have r: "response_size (metrics ?w) = \<lparr>upper_bounds = [Fin 100, PosInf], hist_children = Map.empty\<rparr>"
    by (simp add: quiet_def constructed_def)
  from t show ?thesis
    by (simp add: l c c1 c2 sz r counter_inc_def counter_labels_def str_int_200 error_type_def
          hist_observe_def hist_labels_def new_child_def child_observe_def)
qed

text \<open>
  C8 as the spec states it fails in the Flask adapter for an excluded request: the
  normalizer is called and raises, the warning is logged, the path stays \<open>/health\<close>, which
  the exclusion set holds, and the request is not recorded.
\<close>

theorem excluded_request_not_recorded:
  "req_path \<lparr>req_method = ''GET'', req_path = ''/health'', req_start_time = Some 0\<rparr>
     \<in> set (flask_exclude_paths None)
   \<and> logged (snd (after_request_handler
       \<lparr>path_normalizer = Some (\<lambda>p. Inl (Raised ''KeyError'' ''no route'')),
        exclude_paths = flask_exclude_paths None\<rparr>
       \<lparr>req_method = ''GET'', req_path = ''/health'', req_start_time = Some 0\<rparr>
       \<lparr>resp_status_code = 200, content_length_header = Some ''12'', resp_data = ''hello''\<rparr>
       (quiet (constructed [0.1, 1] [100]))))
     = [(WARNING, ''Path normalizer failed for /health: no route'')]
   \<and> request_count (metrics (snd (after_request_handler
       \<lparr>path_normalizer = Some (\<lambda>p. Inl (Raised ''KeyError'' ''no route'')),
        exclude_paths = flask_exclude_paths None\<rparr>
       \<lparr>req_method = ''GET'', req_path = ''/health'', req_start_time = Some 0\<rparr>
       \<lparr>resp_status_code = 200, content_length_header = Some ''12'', resp_data = ''hello''\<rparr>
       (quiet (constructed [0.1, 1] [100]))))) (''GET'', ''/health'', ''200'', ''none'')
     = None
   \<and> hist_children (request_latency (metrics (snd (after_request_handler
       \<lparr>path_normalizer = Some (\<lambda>p. Inl (Raised ''KeyError'' ''no route'')),
        exclude_paths = flask_exclude_paths None\<rparr>
       \<lparr>req_method = ''GET'', req_path = ''/health'', req_start_time = Some 0\<rparr>
       \<lparr>resp_status_code = 200, content_length_header = Some ''12'', resp_data = ''hello''\<rparr>
       (quiet (constructed [0.1, 1] [100])))))) (''GET'', ''/health'')
     = None"
  by (simp add: after_request_handler_def apply_normalizer_def flask_exclude_paths_def
        dec_in_progress_def libcall_def log_msg_def quiet_def constructed_def get_precise_time_def)

text \<open>
  C9: one observation of \<open>v\<close> through \<open>observe_request\<close> adds one to the cumulative count of
  every bucket of the latency histogram whose bound is at least \<open>v\<close>, the +infinity bucket
  among them, leaves the other counts as they were, and adds \<open>v\<close> to the sum. The buckets
  are those the constructor makes of an ascending sequence \<open>bs\<close>.
\<close>

theorem latency_observation_buckets:
  assumes "fault w LatencyObserve = None"
    and "sorted bs"
    and "upper_bounds (request_latency (metrics w)) = map Fin bs @ [PosInf]"
    and "hist_ok (request_latency (metrics w))"
  shows "let before = hist_labels (request_latency (metrics w)) (http_method, path);
             after = hist_labels (request_latency (metrics (snd
                        (observe_request http_method path v status_code response_size_arg w))))
                       (http_method, path)
         in cumulative after
              = map2 (\<lambda>b n. if le_bound v b then Suc n else n) (map Fin bs @ [PosInf]) (cumulative before)
            \<and> length (cumulative before) = length bs + 1
            \<and> hsum after = hsum before + v"
proof -
  let ?h = "request_latency (metrics w)"
  let ?k = "(http_method, path)"
  have len: "length (cumulative (hist_labels ?h ?k)) = length bs + 1"
    using assms(3,4) by (simp add: cumulative_def length_cumulative_from hist_ok_labels)
  have cum: "cumulative (hist_labels (hist_observe ?h ?k v) ?k)
             = map2 (\<lambda>b n. if le_bound v b then Suc n else n) (map Fin bs @ [PosInf])
                 (cumulative (hist_labels ?h ?k))"
    using cumulative_observe [OF assms(2,3,4)] assms(3) by simp
  have sum: "hsum (hist_labels (hist_observe ?h ?k v) ?k) = hsum (hist_labels ?h ?k) + v"
    by (simp add: hist_labels_observe child_observe_def)
  show ?thesis
    using cum len sum by (simp add: observe_request_latency [OF assms(1)] Let_def)
qed

text \<open>
  The spec's example: 0.03 observed against the buckets 0.01, 0.05, 0.1 counts in the buckets
  0.05, 0.1 and +infinity, and not in 0.01.
\<close>

theorem latency_observation_buckets_witness:
  "cumulative (hist_labels (request_latency (metrics (snd
       (observe_request ''GET'' ''/x'' 0.03 200 None (quiet (constructed [0.01, 0.05, 0.1] [100]))))))
       (''GET'', ''/x''))
     = [0, 1, 1, 1]
   \<and> hsum (hist_labels (request_latency (metrics (snd
       (observe_request ''GET'' ''/x'' 0.03 200 None (quiet (constructed [0.01, 0.05, 0.1] [100]))))))
       (''GET'', ''/x''))
     = 0.03"
proof -
  let ?w = "quiet (constructed [0.01, 0.05, 0.1] [100])"
  have a: "fault ?w LatencyObserve = None" by (simp add: quiet_def)
  have b: "sorted [0.01, 0.05, 0.1 :: real]" by simp
  have c: "upper_bounds (request_latency (metrics ?w)) = map Fin [0.01, 0.05, 0.1] @ [PosInf]"
    by (simp add: quiet_def constructed_def)
  have d: "hist_ok (request_latency (metrics ?w))"
    by (simp add: quiet_def constructed_ok)
  have e: "cumulative (hist_labels (request_latency (metrics ?w)) (''GET'', ''/x'')) = [0, 0, 0, 0]"
    by (simp add: quiet_def constructed_def hist_labels_def new_child_def cumulative_def)
  have f: "hsum (hist_labels (request_latency (metrics ?w)) (''GET'', ''/x'')) = 0"
    by (simp add: quiet_def constructed_def hist_labels_def new_child_def)
  show ?thesis
    using latency_observation_buckets [OF a b c d, of "''GET''" "''/x''" "0.03" 200 None,
        unfolded Let_def e f]
    by simp
qed

text \<open>
  C10: \<open>observe_request\<close> called without a response size leaves the size histogram as it
  was, and with it everything but the latency histogram and the request counter; of these
  it changes at most the child of \<open>(method, path)\<close> and the child of
  \<open>(method, path, str(status_code), error_type)\<close>. Called with a size, it observes the size.
\<close>

theorem observe_without_size_frame:
  "let w' = snd (observe_request http_method path duration status_code None w)
   in response_size (metrics w') = response_size (metrics w)
      \<and> (metrics w')\<lparr>request_latency := request_latency (metrics w),
                     request_count := request_count (metrics w)\<rparr> = metrics w
      \<and> upper_bounds (request_latency (metrics w')) = upper_bounds (request_latency (metrics w))
      \<and> (\<forall>k. k \<noteq> (http_method, path)
            \<longrightarrow> hist_children (request_latency (metrics w')) k = hist_children (request_latency (metrics w)) k)
      \<and> (\<forall>k. k \<noteq> (http_method, path, str_int status_code, error_type status_code)
            \<longrightarrow> request_count (metrics w') k = request_count (metrics w) k)
      \<and> (\<forall>n. fault w LatencyObserve = None \<and> fault w CountInc = None \<and> fault w SizeObserve = None
            \<longrightarrow> response_size (metrics (snd (observe_request http_method path duration status_code (Some n) w)))
                = hist_observe (response_size (metrics w)) (http_method, path) (real_of_int n))"
  by (auto simp: observe_request_def observe_request_try_def and_then_def libcall_def log_msg_def
        hist_observe_def counter_inc_def Let_def
        split: prod.splits sum.splits option.splits)

text \<open>
  The spec's success scenario without and with a size: without, the size histogram is that of
  the new object and the children of other labels are absent; with 1024 bytes, the size is
  observed in the +infinity bucket of the buckets \<open>[100]\<close>.
\<close>

theorem observe_without_size_frame_witness:
  "response_size (metrics (snd (observe_request ''GET'' ''/api/users'' 0.15 200 None
        (quiet (constructed [0.1, 1] [100])))))
     = response_size (constructed [0.1, 1] [100])
   \<and> request_count (metrics (snd (observe_request ''GET'' ''/api/users'' 0.15 200 None
        (quiet (constructed [0.1, 1] [100]))))) (''GET'', ''/api/users'', ''404'', ''client_error'')
     = None
   \<and> hist_children (request_latency (metrics (snd (observe_request ''GET'' ''/api/users'' 0.15 200 None
        (quiet (constructed [0.1, 1] [100])))))) (''POST'', ''/api/users'')
     = None
   \<and> hist_labels (response_size (metrics (snd (observe_request ''GET'' ''/api/users'' 0.15 200 (Some 1024)
        (quiet (constructed [0.1, 1] [100])))))) (''GET'', ''/api/users'')
     = \<lparr>buckets = [0, 1], hsum = 1024\<rparr>"
proof -
  let ?w = "quiet (constructed [0.1, 1] [100])"
  note t = observe_without_size_frame [of "''GET''" "''/api/users''" "0.15" 200 ?w, unfolded Let_def]
  have nf: "fault ?w LatencyObserve = None \<and> fault ?w CountInc = None \<and> fault ?w SizeObserve = None"
    by (simp add: quiet_def)
  from t have "response_size (metrics (snd (observe_request ''GET'' ''/api/users'' 0.15 200 None ?w)))
               = response_size (metrics ?w)"
    by blast
  moreover from t have "request_count (metrics (snd (observe_request ''GET'' ''/api/users'' 0.15 200 None ?w)))
                          (''GET'', ''/api/users'', ''404'', ''client_error'')
                        = request_count (metrics ?w) (''GET'', ''/api/users'', ''404'', ''client_error'')"
    by (simp add: str_int_200 error_type_def)
  moreover from t have "hist_children (request_latency (metrics (snd
                            (observe_request ''GET'' ''/api/users'' 0.15 200 None ?w)))) (''POST'', ''/api/users'')
                        = hist_children (request_latency (metrics ?w)) (''POST'', ''/api/users'')"
    by simp
  moreover from t nf have "response_size (metrics (snd
                            (observe_request ''GET'' ''/api/users'' 0.15 200 (Some 1024) ?w)))
                        = hist_observe (response_size (metrics ?w)) (''GET'', ''/api/users'') (real_of_int 1024)"
    by blast
  ultimately show ?thesis
    by (simp add: quiet_def constructed_def hist_observe_def hist_labels_def new_child_def
          child_observe_def)
qed

end
